theory Spec2Isabelle
  imports
    Complex_Main
    "HOL-Library.Sublist"
    "HOL-Library.Option_ord"
    "HOL-Library.Product_Lexorder"
begin

section \<open>Data model of \<^verbatim>\<open>etl.py\<close>\<close>

text \<open>
  The pipeline reads JSON objects into data frames and writes five parquet datasets.
  A data frame is a list of rows. Every column read from JSON is nullable, so every
  field of an input row is an \<open>option\<close>: \<open>None\<close> is SQL \<open>NULL\<close> (a JSON \<open>null\<close> or a
  missing key). Floating-point columns (\<open>duration\<close>, \<open>length\<close>, latitude, longitude)
  are taken at their exact value, as \<open>real\<close>: two finite doubles are equal exactly
  when their values are.
\<close>

record song_record =
  song_id :: "string option"
  title :: "string option"
  artist_id :: "string option"
  artist_name :: "string option"
  artist_location :: "string option"
  artist_latitude :: "real option"
  artist_longitude :: "real option"
  year :: "int option"
  duration :: "real option"

record activity_event =
  page :: "string option"
  ts :: "int option"
  userId :: "string option"
  firstName :: "string option"
  lastName :: "string option"
  gender :: "string option"
  level :: "string option"
  sessionId :: "int option"
  location :: "string option"
  userAgent :: "string option"
  song :: "string option"
  artist :: "string option"
  length_secs :: "real option"

text \<open>
  The output rows. Their columns carry the dataset's name as a prefix, since several
  datasets have a column of the same name (\<open>artist_id\<close>, \<open>year\<close>, \<open>level\<close>, ...).
  The activity log's \<open>length\<close> column is \<open>length_secs\<close> above, \<open>length\<close> being the
  list function.
\<close>

record songs_row =
  songs_song_id :: "string option"
  songs_title :: "string option"
  songs_artist_id :: "string option"
  songs_year :: "int option"
  songs_duration :: "real option"

record artists_row =
  artists_artist_id :: "string option"
  artists_name :: "string option"
  artists_location :: "string option"
  artists_latitude :: "real option"
  artists_longitude :: "real option"

record users_row =
  users_user_id :: "string option"
  users_first_name :: "string option"
  users_last_name :: "string option"
  users_gender :: "string option"
  users_level :: "string option"

text \<open>A timestamp column holds microseconds since the Unix epoch.\<close>

type_synonym timestamp = int

record times_row =
  times_start_time :: timestamp
  times_hour :: int
  times_day :: int
  times_week :: int
  times_month :: int
  times_year :: int
  times_weekday :: string

record songplays_row =
  songplays_start_time :: timestamp
  songplays_user_id :: "string option"
  songplays_level :: "string option"
  songplays_song_id :: "string option"
  songplays_artist_id :: "string option"
  songplays_session_id :: "int option"
  songplays_location :: "string option"
  songplays_user_agent :: "string option"
  songplays_year :: int
  songplays_month :: int

text \<open>
  The output root: one slot per dataset directory, \<open>None\<close> while the directory does
  not exist. \<open>write.parquet(..., mode='overwrite')\<close> replaces the slot.
\<close>

record store =
  songs_parquet :: "songs_row list option"
  artists_parquet :: "artists_row list option"
  users_parquet :: "users_row list option"
  times_parquet :: "times_row list option"
  songplays_parquet :: "songplays_row list option"

datatype error =
  ListingError
  | AnalysisException string
  | TypeError
  | ValueError

text \<open>
  What the functions of \<^verbatim>\<open>etl.py\<close> get from outside: the listing of the input bucket
  (failing or the keys of its objects), the local files a glob pattern matches, the
  rows of each JSON object, and what the engine's reader does when it is given no
  object at all (\<open>empty_read_fails\<close>: it raises; otherwise it returns the empty data
  frame). The last one is the engine's choice, not the pipeline's, so it is a parameter.
\<close>

record env =
  bucket_objects :: "error + string list"
  glob_files :: "string \<Rightarrow> string list"
  song_json :: "string \<Rightarrow> song_record list"
  log_json :: "string \<Rightarrow> activity_event list"
  empty_read_fails :: bool

datatype source = Glob string | Paths "string list"

section \<open>The engine's operations\<close>

definition resolve :: "env \<Rightarrow> source \<Rightarrow> string list" where
  "resolve e src = (case src of Glob g \<Rightarrow> glob_files e g | Paths ps \<Rightarrow> ps)"

definition source_name :: "source \<Rightarrow> string" where
  "source_name src = (case src of Glob g \<Rightarrow> g | Paths ps \<Rightarrow> concat ps)"

text \<open>\<open>spark.read.json\<close>: the rows of all the objects, in the order of the objects.\<close>

definition read_json :: "env \<Rightarrow> (string \<Rightarrow> 'r list) \<Rightarrow> source \<Rightarrow> error + 'r list" where
  "read_json e content src =
     (if resolve e src = []
      then (if empty_read_fails e then Inl (AnalysisException (source_name src)) else Inr [])
      else Inr (concat (map content (resolve e src))))"

text \<open>\<open>spark.read.parquet\<close>: a directory that does not exist is an error.\<close>

definition read_parquet :: "string \<Rightarrow> 'r list option \<Rightarrow> error + 'r list" where
  "read_parquet path slot =
     (case slot of None \<Rightarrow> Inl (AnalysisException path) | Some rows \<Rightarrow> Inr rows)"

text \<open>\<open>dropDuplicates()\<close>: one row of each value.\<close>

definition dropDuplicates :: "'r list \<Rightarrow> 'r list" where
  "dropDuplicates rows = remdups rows"

section \<open>\<^verbatim>\<open>process_song_data\<close>\<close>

definition song_data :: "env \<Rightarrow> string \<Rightarrow> error + source" where
  "song_data e input_data =
     (if prefix ''s3a://'' input_data
      then (case bucket_objects e of
              Inl err \<Rightarrow> Inl err
            | Inr keys \<Rightarrow>
                Inr (Paths [input_data @ ''/'' @ k.
                             k \<leftarrow> keys, prefix ''song_data'' k, suffix ''.json'' k]))
      else Inr (Glob (input_data @ ''/song_data/*/*/*/*.json'')))"

definition select_songs :: "song_record \<Rightarrow> songs_row" where
  "select_songs r =
     \<lparr>songs_song_id = song_id r, songs_title = title r, songs_artist_id = artist_id r,
      songs_year = year r, songs_duration = duration r\<rparr>"

definition songs_table :: "song_record list \<Rightarrow> songs_row list" where
  "songs_table df = dropDuplicates (map select_songs df)"

definition select_artists :: "song_record \<Rightarrow> artists_row" where
  "select_artists r =
     \<lparr>artists_artist_id = artist_id r, artists_name = artist_name r,
      artists_location = artist_location r, artists_latitude = artist_latitude r,
      artists_longitude = artist_longitude r\<rparr>"

definition artists_table :: "song_record list \<Rightarrow> artists_row list" where
  "artists_table df = dropDuplicates (map select_artists df)"

definition read_song_data :: "env \<Rightarrow> string \<Rightarrow> error + song_record list" where
  "read_song_data e input_data =
     (case song_data e input_data of
        Inl err \<Rightarrow> Inl err
      | Inr src \<Rightarrow> read_json e (song_json e) src)"

definition process_song_data :: "env \<Rightarrow> string \<Rightarrow> store \<Rightarrow> (error + unit) \<times> store" where
  "process_song_data e input_data st =
     (case read_song_data e input_data of
        Inl err \<Rightarrow> (Inl err, st)
      | Inr df \<Rightarrow>
          (Inr (),
           st\<lparr>songs_parquet := Some (songs_table df),
              artists_parquet := Some (artists_table df)\<rparr>))"

section \<open>\<^verbatim>\<open>process_log_data\<close>: users\<close>

definition log_data :: "env \<Rightarrow> string \<Rightarrow> error + source" where
  "log_data e input_data =
     (if prefix ''s3a://'' input_data
      then (case bucket_objects e of
              Inl err \<Rightarrow> Inl err
            | Inr keys \<Rightarrow>
                Inr (Paths [input_data @ ''/'' @ k.
                             k \<leftarrow> keys, prefix ''log_data'' k, suffix ''.json'' k]))
      else Inr (Glob (input_data @ ''/log-data/*.json'')))"

definition read_log_data :: "env \<Rightarrow> string \<Rightarrow> error + activity_event list" where
  "read_log_data e input_data =
     (case log_data e input_data of
        Inl err \<Rightarrow> Inl err
      | Inr src \<Rightarrow> read_json e (log_json e) src)"

text \<open>
  SQL equality, as a row filter and a join condition use it: a comparison with \<open>NULL\<close>
  is not true, so the row (or the pair of rows) is dropped.
\<close>

definition sql_eq :: "'a option \<Rightarrow> 'a option \<Rightarrow> bool" where
  "sql_eq a b = (case a of None \<Rightarrow> False | Some x \<Rightarrow> (case b of None \<Rightarrow> False | Some y \<Rightarrow> x = y))"

definition where_NextSong :: "activity_event list \<Rightarrow> activity_event list" where
  "where_NextSong df = filter (\<lambda>r. sql_eq (page r) (Some ''NextSong'')) df"

text \<open>
  \<open>df.sort('ts', ascending=False)\<close>: descending, \<open>NULL\<close> last. The sort is the stable
  one: rows of equal \<open>ts\<close> keep the order of the input. The key turns the descending
  order into an ascending one.
\<close>

definition ts_desc_key :: "int option \<Rightarrow> bool \<times> int" where
  "ts_desc_key t = (case t of None \<Rightarrow> (True, 0) | Some n \<Rightarrow> (False, - n))"

definition sort_ts_desc :: "activity_event list \<Rightarrow> activity_event list" where
  "sort_ts_desc df = sort_key (\<lambda>r. ts_desc_key (ts r)) df"

text \<open>
  \<open>dropDuplicates(subset)\<close>: of the rows that agree on the columns of the subset, the
  first one is kept (\<open>NULL\<close>s count as equal, as in a grouping).
\<close>

fun dropDuplicates_subset :: "('r \<Rightarrow> 'k) \<Rightarrow> 'r list \<Rightarrow> 'r list" where
  "dropDuplicates_subset key [] = []"
| "dropDuplicates_subset key (r # rows) =
     r # dropDuplicates_subset key (filter (\<lambda>q. key q \<noteq> key r) rows)"

definition select_users :: "activity_event \<Rightarrow> users_row" where
  "select_users r =
     \<lparr>users_user_id = userId r, users_first_name = firstName r,
      users_last_name = lastName r, users_gender = gender r, users_level = level r\<rparr>"

definition users_subset ::
    "users_row \<Rightarrow> string option \<times> string option \<times> string option \<times> string option" where
  "users_subset u = (users_user_id u, users_first_name u, users_last_name u, users_gender u)"

definition users_table :: "activity_event list \<Rightarrow> users_row list" where
  "users_table df = dropDuplicates_subset users_subset (map select_users (sort_ts_desc df))"

section \<open>\<^verbatim>\<open>process_log_data\<close>: times\<close>

text \<open>
  \<open>get_datetime\<close> is \<open>datetime.fromtimestamp(epoch / 1000.0)\<close>: on \<open>None\<close> the division
  raises \<open>TypeError\<close>; outside the years 1 to 9999 \<open>fromtimestamp\<close> raises. The
  process and session time zone is UTC, and the quotient is taken exactly, so the
  column holds \<open>epoch\<close> milliseconds as microseconds. The double quotient rounds to
  that very microsecond as long as it is below \<open>2 ^ 32\<close> seconds in absolute value
  (the years 1834 to 2105): its error is then below half a microsecond.
\<close>

definition get_datetime :: "int option \<Rightarrow> error + timestamp" where
  "get_datetime epoch =
     (case epoch of
        None \<Rightarrow> Inl TypeError
      | Some n \<Rightarrow>
          if - 62135596800000 \<le> n \<and> n \<le> 253402300799999 then Inr (n * 1000)
          else Inl ValueError)"

text \<open>
  \<open>df.withColumn("start_time", get_datetime(df.ts))\<close>: the function runs on every
  row, and the first row on which it raises fails the job.
\<close>

fun withColumn_start_time ::
    "activity_event list \<Rightarrow> error + (activity_event \<times> timestamp) list" where
  "withColumn_start_time [] = Inr []"
| "withColumn_start_time (r # rows) =
     (case get_datetime (ts r) of
        Inl err \<Rightarrow> Inl err
      | Inr t \<Rightarrow>
          (case withColumn_start_time rows of
             Inl err \<Rightarrow> Inl err
           | Inr rows' \<Rightarrow> Inr ((r, t) # rows')))"


definition epoch_second :: "timestamp \<Rightarrow> int" where
  "epoch_second t = t div 1000000"

definition epoch_day :: "timestamp \<Rightarrow> int" where
  "epoch_day t = epoch_second t div 86400"

text \<open>
  The civil date of a day number (days since 1 January 1970). Years are counted from
  1 March, so that the leap day is the last day of its year: a day number splits
  into a 400-year era, a century of the era, a 4-year cycle of the century and a year
  of the cycle; the month and the day then come from the day of the year.
\<close>

definition civil_from_days :: "int \<Rightarrow> int \<times> int \<times> int" where
  "civil_from_days z =
     (let z' = z + 719468;
          era = z' div 146097;
          doe = z' mod 146097;
          n100 = min 3 (doe div 36524);
          d1 = doe - n100 * 36524;
          n4 = d1 div 1461;
          d2 = d1 mod 1461;
          n1 = min 3 (d2 div 365);
          doy = d2 - n1 * 365;
          yoe = 100 * n100 + 4 * n4 + n1;
          mp = (5 * doy + 2) div 153;
          d = doy - (153 * mp + 2) div 5 + 1;
          m = (if mp < 10 then mp + 3 else mp - 9);
          y = yoe + era * 400
      in (if m \<le> 2 then y + 1 else y, m, d))"

text \<open>The day number of a civil date.\<close>

definition days_from_civil :: "int \<Rightarrow> int \<Rightarrow> int \<Rightarrow> int" where
  "days_from_civil y m d =
     (let y' = (if m \<le> 2 then y - 1 else y);
          era = y' div 400;
          yoe = y' mod 400;
          doy = (153 * (if m > 2 then m - 3 else m + 9) + 2) div 5 + d - 1;
          doe = yoe * 365 + yoe div 4 - yoe div 100 + doy
      in era * 146097 + doe - 719468)"

definition F_hour :: "timestamp \<Rightarrow> int" where
  "F_hour t = (epoch_second t mod 86400) div 3600"

definition F_year :: "timestamp \<Rightarrow> int" where
  "F_year t = fst (civil_from_days (epoch_day t))"

definition F_month :: "timestamp \<Rightarrow> int" where
  "F_month t = fst (snd (civil_from_days (epoch_day t)))"

definition F_dayofmonth :: "timestamp \<Rightarrow> int" where
  "F_dayofmonth t = snd (snd (civil_from_days (epoch_day t)))"

text \<open>Day of the week, 0 for Monday; 1 January 1970 was a Thursday.\<close>

definition day_of_week :: "timestamp \<Rightarrow> int" where
  "day_of_week t = (epoch_day t + 3) mod 7"

text \<open>
  The ISO week of a day is the week of the year its Thursday lies in, counted from
  that year's first Thursday.
\<close>

definition F_weekofyear :: "timestamp \<Rightarrow> int" where
  "F_weekofyear t =
     (let thursday = epoch_day t - day_of_week t + 3;
          y = fst (civil_from_days thursday)
      in (thursday - days_from_civil y 1 1) div 7 + 1)"

definition F_date_format_E :: "timestamp \<Rightarrow> string" where
  "F_date_format_E t =
     [''Mon'', ''Tue'', ''Wed'', ''Thu'', ''Fri'', ''Sat'', ''Sun''] ! nat (day_of_week t)"

definition select_times :: "activity_event \<times> timestamp \<Rightarrow> times_row" where
  "select_times r =
     (let start_time = snd r in
      \<lparr>times_start_time = start_time, times_hour = F_hour start_time,
       times_day = F_dayofmonth start_time, times_week = F_weekofyear start_time,
       times_month = F_month start_time, times_year = F_year start_time,
       times_weekday = F_date_format_E start_time\<rparr>)"

definition time_table :: "(activity_event \<times> timestamp) list \<Rightarrow> times_row list" where
  "time_table df = map select_times df"

section \<open>\<^verbatim>\<open>process_log_data\<close>: songplays\<close>

definition select_songplays ::
    "activity_event \<times> timestamp \<Rightarrow> artists_row \<Rightarrow> songs_row \<Rightarrow> songplays_row" where
  "select_songplays r a s =
     (let ev = fst r; start_time = snd r in
      \<lparr>songplays_start_time = start_time, songplays_user_id = userId ev,
       songplays_level = level ev, songplays_song_id = songs_song_id s,
       songplays_artist_id = artists_artist_id a, songplays_session_id = sessionId ev,
       songplays_location = location ev, songplays_user_agent = userAgent ev,
       songplays_year = F_year start_time, songplays_month = F_month start_time\<rparr>)"

text \<open>
  The two inner joins, for one row of the log: every artist row whose \<open>name\<close> is the
  event's \<open>artist\<close>, and with it every song row that meets the three conditions.
\<close>

definition event_songplays ::
    "artists_row list \<Rightarrow> songs_row list \<Rightarrow> activity_event \<times> timestamp \<Rightarrow> songplays_row list" where
  "event_songplays artist_df song_df r =
     [select_songplays r a s.
        a \<leftarrow> artist_df, sql_eq (artist (fst r)) (artists_name a),
        s \<leftarrow> song_df,
        sql_eq (artists_artist_id a) (songs_artist_id s)
          \<and> sql_eq (song (fst r)) (songs_title s)
          \<and> sql_eq (length_secs (fst r)) (songs_duration s)]"

definition songplays_table ::
    "(activity_event \<times> timestamp) list \<Rightarrow> artists_row list \<Rightarrow> songs_row list
      \<Rightarrow> songplays_row list" where
  "songplays_table df artist_df song_df = concat (map (event_songplays artist_df song_df) df)"

section \<open>\<^verbatim>\<open>process_log_data\<close> and \<^verbatim>\<open>main\<close>\<close>

definition process_log_data :: "env \<Rightarrow> string \<Rightarrow> store \<Rightarrow> (error + unit) \<times> store" where
  "process_log_data e input_data st =
     (case read_log_data e input_data of
        Inl err \<Rightarrow> (Inl err, st)
      | Inr raw \<Rightarrow>
          (let df = where_NextSong raw;
               st1 = st\<lparr>users_parquet := Some (users_table df)\<rparr>
           in case withColumn_start_time df of
                Inl err \<Rightarrow> (Inl err, st1)
              | Inr df' \<Rightarrow>
                  (let st2 = st1\<lparr>times_parquet := Some (time_table df')\<rparr>
                   in case read_parquet ''songs'' (songs_parquet st2) of
                        Inl err \<Rightarrow> (Inl err, st2)
                      | Inr song_df \<Rightarrow>
                          (case read_parquet ''artists'' (artists_parquet st2) of
                             Inl err \<Rightarrow> (Inl err, st2)
                           | Inr artist_df \<Rightarrow>
                               (Inr (),
                                st2\<lparr>songplays_parquet :=
                                      Some (songplays_table df' artist_df song_df)\<rparr>)))))"

definition main :: "env \<Rightarrow> store \<Rightarrow> (error + unit) \<times> store" where
  "main e st =
     (let input_data = ''data/input'' in
      case process_song_data e input_data st of
        (Inl err, st1) \<Rightarrow> (Inl err, st1)
      | (Inr u, st1) \<Rightarrow> process_log_data e input_data st1)"

section \<open>Scenario data\<close>

text \<open>
  The inputs of the specification's scenarios, as a local input root: two catalog
  files and one log file. The two catalog records of \<open>b.json\<close> agree on the five
  columns of the songs table and differ in the artist's location. The log has two
  plays of one user (first on the free tier, a day later on the paid one), a play
  without artist, and a page view that is no play.
\<close>

definition song_A :: song_record where
  "song_A =
     \<lparr>song_id = Some ''S1'', title = Some ''Song A'', artist_id = Some ''AR1'',
      artist_name = Some ''Artist X'', artist_location = Some ''Oslo'',
      artist_latitude = Some (599 / 10), artist_longitude = None,
      year = Some 2000, duration = Some 200\<rparr>"

definition song_A' :: song_record where
  "song_A' = song_A\<lparr>artist_location := Some ''Bergen''\<rparr>"

definition play_free :: activity_event where
  "play_free =
     \<lparr>page = Some ''NextSong'', ts = Some 1541903636796, userId = Some ''1'',
      firstName = Some ''Ada'', lastName = Some ''Lund'', gender = Some ''F'',
      level = Some ''free'', sessionId = Some 7, location = Some ''Oslo'',
      userAgent = Some ''Mozilla'', song = Some ''Song A'', artist = Some ''Artist X'',
      length_secs = Some 200\<rparr>"

definition play_paid :: activity_event where
  "play_paid = play_free\<lparr>ts := Some 1541990036796, level := Some ''paid''\<rparr>"

definition play_no_artist :: activity_event where
  "play_no_artist = play_free\<lparr>artist := None\<rparr>"

definition page_view :: activity_event where
  "page_view = play_free\<lparr>page := Some ''Home''\<rparr>"

definition scenario_env :: env where
  "scenario_env =
     \<lparr>bucket_objects = Inr [],
      glob_files = (\<lambda>g.
        if g = ''data/input/song_data/*/*/*/*.json'' then [''a.json'', ''b.json'']
        else if g = ''data/input/log-data/*.json'' then [''log.json'']
        else []),
      song_json = (\<lambda>p.
        if p = ''a.json'' then [song_A]
        else if p = ''b.json'' then [song_A, song_A']
        else []),
      log_json = (\<lambda>p.
        if p = ''log.json'' then [play_free, page_view, play_paid, play_no_artist]
        else []),
      empty_read_fails = True\<rparr>"



definition empty_store :: store where
  "empty_store =
     \<lparr>songs_parquet = None, artists_parquet = None, users_parquet = None,
      times_parquet = None, songplays_parquet = None\<rparr>"

text \<open>The output root after the catalog stage has run on the scenario's input.\<close>

definition scenario_store :: store where
  "scenario_store = snd (process_song_data scenario_env ''data/input'' empty_store)"

section \<open>The song catalog stage\<close>


lemma process_song_data_ok:
  "read_song_data e input_data = Inr df \<Longrightarrow>
   process_song_data e input_data st =
     (Inr (), st\<lparr>songs_parquet := Some (songs_table df),
                 artists_parquet := Some (artists_table df)\<rparr>)"
  by (simp add: process_song_data_def)

lemma songs_row_eq_select:
  "(songs_song_id row = song_id r \<and> songs_title row = title r \<and>
    songs_artist_id row = artist_id r \<and> songs_year row = year r \<and>
    songs_duration row = duration r) = (row = select_songs r)"
  by (cases row) (auto simp: select_songs_def)

lemma length_filter_eq_dropDuplicates:
  "v \<in> set rows \<Longrightarrow> length (filter (\<lambda>x. x = v) (dropDuplicates rows)) = 1"
proof -
  assume v: "v \<in> set rows"
  have "length (filter (\<lambda>x. x = v) (remdups rows)) = card ({x. x = v} \<inter> set (remdups rows))"
    by (rule distinct_length_filter) simp
  also have "{x. x = v} \<inter> set (remdups rows) = {v}"
    using v by auto
  finally show ?thesis by (simp add: dropDuplicates_def)
qed

text \<open>
  Claim C3. When two (or more) catalog records carry the same values in the five
  projected columns \<open>song_id\<close>, \<open>title\<close>, \<open>artist_id\<close>, \<open>year\<close> and \<open>duration\<close>, the
  songs dataset that \<open>process_song_data\<close> writes has exactly one row with these
  values: duplicates are dropped by equality of the whole projected row.
\<close>

theorem songs_table_one_row_per_combination:
  assumes "read_song_data e input_data = Inr df"
    and "r1 \<in> set df" and "r2 \<in> set df"
    and "song_id r1 = song_id r2" and "title r1 = title r2"
    and "artist_id r1 = artist_id r2" and "year r1 = year r2"
    and "duration r1 = duration r2"
  shows "\<exists>T. songs_parquet (snd (process_song_data e input_data st)) = Some T \<and>
             length [row \<leftarrow> T. songs_song_id row = song_id r2 \<and> songs_title row = title r2 \<and>
                       songs_artist_id row = artist_id r2 \<and> songs_year row = year r2 \<and>
                       songs_duration row = duration r2] = 1"
proof -
  have "select_songs r2 \<in> set (map select_songs df)"
    using assms(3) by simp
  then have "length (filter (\<lambda>x. x = select_songs r2) (songs_table df)) = 1"
    unfolding songs_table_def by (rule length_filter_eq_dropDuplicates)
  then show ?thesis
    by (simp add: process_song_data_ok [OF assms(1)] songs_row_eq_select)
qed

lemma artists_row_neq:
  "artist_location r1 \<noteq> artist_location r2 \<or> artist_latitude r1 \<noteq> artist_latitude r2 \<or>
   artist_longitude r1 \<noteq> artist_longitude r2 \<Longrightarrow> select_artists r1 \<noteq> select_artists r2"
  by (auto simp: select_artists_def)

lemma two_rows_length_filter:
  assumes "distinct T" and "a \<in> set T" and "b \<in> set T" and "a \<noteq> b" and "P a" and "P b"
  shows "2 \<le> length (filter P T)"
proof -
  have "card {a, b} \<le> card ({x. P x} \<inter> set T)"
    by (rule card_mono) (use assms in auto)
  then show ?thesis
    using assms by (simp add: distinct_length_filter)
qed

text \<open>
  Claim C7. The artists dataset has no two equal rows and has every projected row of
  the catalog, so only full-row duplicates over \<open>artist_id\<close>, \<open>name\<close>, \<open>location\<close>,
  \<open>latitude\<close>, \<open>longitude\<close> are removed; two catalog records with the same
  \<open>artist_id\<close> and a different location, latitude or longitude leave at least two rows
  with that \<open>artist_id\<close>.
\<close>

theorem artists_table_full_row_duplicates_only:
  assumes "read_song_data e input_data = Inr df"
    and "r1 \<in> set df" and "r2 \<in> set df"
    and "artist_id r1 = artist_id r2"
    and "artist_location r1 \<noteq> artist_location r2 \<or> artist_latitude r1 \<noteq> artist_latitude r2 \<or>
         artist_longitude r1 \<noteq> artist_longitude r2"
  shows "\<exists>T. artists_parquet (snd (process_song_data e input_data st)) = Some T \<and>
             distinct T \<and> set T = set (map select_artists df) \<and>
             2 \<le> length [a \<leftarrow> T. artists_artist_id a = artist_id r1]"
proof -
  let ?T = "artists_table df"
  have d: "distinct ?T" and s: "set ?T = set (map select_artists df)"
    by (simp_all add: artists_table_def dropDuplicates_def)
  have "2 \<le> length (filter (\<lambda>a. artists_artist_id a = artist_id r1) ?T)"
  proof (rule two_rows_length_filter [OF d])
    show "select_artists r1 \<in> set ?T" "select_artists r2 \<in> set ?T"
      using assms(2,3) s by auto
    show "select_artists r1 \<noteq> select_artists r2"
      by (rule artists_row_neq [OF assms(5)])
    show "artists_artist_id (select_artists r1) = artist_id r1"
      "artists_artist_id (select_artists r2) = artist_id r1"
      using assms(4) by (simp_all add: select_artists_def)
  qed
  with d s show ?thesis
    by (simp add: process_song_data_ok [OF assms(1)])
qed

lemma scenario_read_song_data:
  "read_song_data scenario_env ''data/input'' = Inr [song_A, song_A, song_A']"
  by (simp add: read_song_data_def song_data_def read_json_def resolve_def scenario_env_def)

theorem songs_table_one_row_per_combination_witness:
  "read_song_data scenario_env ''data/input'' = Inr [song_A, song_A, song_A'] \<and>
   song_A \<noteq> song_A' \<and>
   song_id song_A = song_id song_A' \<and> title song_A = title song_A' \<and>
   artist_id song_A = artist_id song_A' \<and> year song_A = year song_A' \<and>
   duration song_A = duration song_A' \<and>
   (\<exists>T. songs_parquet (snd (process_song_data scenario_env ''data/input'' empty_store)) = Some T \<and>
        length [row \<leftarrow> T. songs_song_id row = song_id song_A' \<and>
                  songs_title row = title song_A' \<and>
                  songs_artist_id row = artist_id song_A' \<and>
                  songs_year row = year song_A' \<and>
                  songs_duration row = duration song_A'] = 1)"
proof -
  note rd = scenario_read_song_data
  have m: "song_A \<in> set [song_A, song_A, song_A']" "song_A' \<in> set [song_A, song_A, song_A']"
    by simp_all
  have ne: "song_A \<noteq> song_A'"
    by (simp add: song_A_def song_A'_def)
  have eqs: "song_id song_A = song_id song_A'" "title song_A = title song_A'"
    "artist_id song_A = artist_id song_A'" "year song_A = year song_A'"
    "duration song_A = duration song_A'"
    by (simp_all add: song_A_def song_A'_def)
  note c = songs_table_one_row_per_combination [OF rd m eqs, of empty_store]
  from rd ne eqs c show ?thesis
    by (intro conjI)
qed

theorem artists_table_full_row_duplicates_only_witness:
  "read_song_data scenario_env ''data/input'' = Inr [song_A, song_A, song_A'] \<and>
   artist_id song_A = artist_id song_A' \<and>
   artist_location song_A \<noteq> artist_location song_A' \<and>
   (\<exists>T. artists_parquet (snd (process_song_data scenario_env ''data/input'' empty_store)) = Some T \<and>
        distinct T \<and> set T = set (map select_artists [song_A, song_A, song_A']) \<and>
        2 \<le> length [a \<leftarrow> T. artists_artist_id a = artist_id song_A])"
proof -
  note rd = scenario_read_song_data
  have m: "song_A \<in> set [song_A, song_A, song_A']" "song_A' \<in> set [song_A, song_A, song_A']"
    by simp_all
  have e: "artist_id song_A = artist_id song_A'"
    by (simp add: song_A_def song_A'_def)
  have ne: "artist_location song_A \<noteq> artist_location song_A'"
    by (simp add: song_A_def song_A'_def)
  then have d: "artist_location song_A \<noteq> artist_location song_A' \<or>
      artist_latitude song_A \<noteq> artist_latitude song_A' \<or>
      artist_longitude song_A \<noteq> artist_longitude song_A'"
    by simp
  note c = artists_table_full_row_duplicates_only [OF rd m e d, of empty_store]
  from rd e ne c show ?thesis
    by (intro conjI)
qed

section \<open>The activity log stage: users\<close>


lemma users_parquet_process_log_data:
  "read_log_data e input_data = Inr raw \<Longrightarrow>
   users_parquet (snd (process_log_data e input_data st)) =
     Some (users_table (where_NextSong raw))"
  by (simp add: process_log_data_def Let_def read_parquet_def split: sum.splits option.splits)

lemma set_where_NextSong:
  "set (where_NextSong raw) = {r \<in> set raw. page r = Some ''NextSong''}"
  by (auto simp: where_NextSong_def sql_eq_def split: option.splits)

lemma dropDuplicates_subset_map:
  "dropDuplicates_subset key (map f rows) = map f (dropDuplicates_subset (key \<circ> f) rows)"
proof (induction "key \<circ> f" rows rule: dropDuplicates_subset.induct)
  case 1
  then show ?case by simp
next
  case (2 r rows)
  then show ?case by (simp add: filter_map comp_def)
qed

lemma set_dropDuplicates_subset: "set (dropDuplicates_subset key rows) \<subseteq> set rows"
  by (induction key rows rule: dropDuplicates_subset.induct) auto

lemma dropDuplicates_subset_first:
  assumes "sorted_wrt R rows" and "\<forall>x. R x x"
    and "r \<in> set (dropDuplicates_subset key rows)" and "q \<in> set rows" and "key q = key r"
  shows "R r q"
  using assms
proof (induction key rows rule: dropDuplicates_subset.induct)
  case (1 key)
  then show ?case by simp
next
  case (2 key x rows)
  let ?rest = "filter (\<lambda>q. key q \<noteq> key x) rows"
  show ?case
  proof (cases "r = x")
    case True
    from "2.prems"(1) have "\<forall>y \<in> set rows. R x y" by simp
    moreover from "2.prems"(4) have "q = x \<or> q \<in> set rows" by simp
    ultimately show ?thesis using "2.prems"(2) True by blast
  next
    case False
    with "2.prems"(3) have r: "r \<in> set (dropDuplicates_subset key ?rest)"
      by simp
    then have "r \<in> set ?rest"
      by (rule subsetD [OF set_dropDuplicates_subset])
    then have "key r \<noteq> key x" by simp
    with "2.prems"(4,5) have q: "q \<in> set ?rest" by auto
    have "sorted_wrt R ?rest"
      using "2.prems"(1) by (simp add: sorted_wrt_filter)
    from "2.IH" [OF this "2.prems"(2) r q "2.prems"(5)] show ?thesis .
  qed
qed

lemma ts_desc_key_le: "(ts_desc_key a \<le> ts_desc_key b) = (b \<le> a)"
  by (cases a; cases b) (auto simp: ts_desc_key_def)

lemma sorted_wrt_sort_ts_desc: "sorted_wrt (\<lambda>a b. ts b \<le> ts a) (sort_ts_desc df)"
proof -
  have "sorted (map (\<lambda>r. ts_desc_key (ts r)) (sort_ts_desc df))"
    unfolding sort_ts_desc_def by (rule sorted_sort_key)
  then show ?thesis
    by (simp add: sorted_map ts_desc_key_le)
qed

lemma users_table_rows:
  assumes "u \<in> set (users_table df)"
  shows "\<exists>ev \<in> set df. u = select_users ev \<and>
           (\<forall>ev' \<in> set df. users_subset (select_users ev') = users_subset u \<longrightarrow> ts ev' \<le> ts ev)"
proof -
  let ?key = "users_subset \<circ> select_users"
  let ?kept = "dropDuplicates_subset ?key (sort_ts_desc df)"
  from assms obtain ev where ev: "ev \<in> set ?kept" and u: "u = select_users ev"
    by (auto simp: users_table_def dropDuplicates_subset_map)
  have in_df: "ev \<in> set df"
    using ev set_dropDuplicates_subset [of ?key "sort_ts_desc df"]
    by (auto simp: sort_ts_desc_def)
  have "ts ev' \<le> ts ev" if "ev' \<in> set df" and "users_subset (select_users ev') = users_subset u" for ev'
  proof (rule dropDuplicates_subset_first [OF sorted_wrt_sort_ts_desc _ ev, where q = ev'])
    show "ev' \<in> set (sort_ts_desc df)" using that(1) by (simp add: sort_ts_desc_def)
    show "?key ev' = ?key ev" using that(2) u by simp
  qed simp
  with in_df u show ?thesis by blast
qed

text \<open>
  Claim C1. Every row of the users dataset carries the \<open>level\<close> of a play
  (\<open>page = "NextSong"\<close>) with the row's \<open>user_id\<close>, \<open>first_name\<close>, \<open>last_name\<close> and
  \<open>gender\<close> whose \<open>ts\<close> is the maximum among the plays with these four values: the
  sort by \<open>ts\<close> descending followed by the deduplication on the four columns keeps
  the most recent play of each identity. (A \<open>NULL\<close> \<open>ts\<close> is sorted last, so it
  counts as the earliest: \<open>None \<le> t\<close>.)
\<close>

theorem users_level_is_latest:
  assumes "read_log_data e input_data = Inr raw"
  shows "\<exists>U. users_parquet (snd (process_log_data e input_data st)) = Some U \<and>
     (\<forall>u \<in> set U. \<exists>ev \<in> set raw.
         page ev = Some ''NextSong'' \<and>
         userId ev = users_user_id u \<and> firstName ev = users_first_name u \<and>
         lastName ev = users_last_name u \<and> gender ev = users_gender u \<and>
         level ev = users_level u \<and>
         (\<forall>ev' \<in> set raw.
             page ev' = Some ''NextSong'' \<and>
             userId ev' = users_user_id u \<and> firstName ev' = users_first_name u \<and>
             lastName ev' = users_last_name u \<and> gender ev' = users_gender u
             \<longrightarrow> ts ev' \<le> ts ev))"
proof -
  let ?df = "where_NextSong raw"
  have "\<exists>ev \<in> set raw.
         page ev = Some ''NextSong'' \<and>
         userId ev = users_user_id u \<and> firstName ev = users_first_name u \<and>
         lastName ev = users_last_name u \<and> gender ev = users_gender u \<and>
         level ev = users_level u \<and>
         (\<forall>ev' \<in> set raw.
             page ev' = Some ''NextSong'' \<and>
             userId ev' = users_user_id u \<and> firstName ev' = users_first_name u \<and>
             lastName ev' = users_last_name u \<and> gender ev' = users_gender u
             \<longrightarrow> ts ev' \<le> ts ev)" if "u \<in> set (users_table ?df)" for u
  proof -
    from users_table_rows [OF that] obtain ev where ev: "ev \<in> set ?df" "u = select_users ev"
      and latest: "\<And>ev'. ev' \<in> set ?df \<Longrightarrow>
          users_subset (select_users ev') = users_subset u \<Longrightarrow> ts ev' \<le> ts ev"
      by blast
    from ev(1) have "ev \<in> set raw" "page ev = Some ''NextSong''"
      by (simp_all add: set_where_NextSong)
    moreover from ev(2) have "userId ev = users_user_id u" "firstName ev = users_first_name u"
      "lastName ev = users_last_name u" "gender ev = users_gender u" "level ev = users_level u"
      by (simp_all add: select_users_def)
    moreover have "ts ev' \<le> ts ev"
      if "ev' \<in> set raw" "page ev' = Some ''NextSong''"
        "userId ev' = users_user_id u" "firstName ev' = users_first_name u"
        "lastName ev' = users_last_name u" "gender ev' = users_gender u" for ev'
    proof (rule latest)
      show "ev' \<in> set ?df" using that(1,2) by (simp add: set_where_NextSong)
      show "users_subset (select_users ev') = users_subset u"
        using that(3-6) by (simp add: users_subset_def select_users_def)
    qed
    ultimately show ?thesis by blast
  qed
  then show ?thesis
    by (simp add: users_parquet_process_log_data [OF assms])
qed

text \<open>
  Claim C9. Every row of the users dataset is the projection of one play: its five
  values are the \<open>userId\<close>, \<open>firstName\<close>, \<open>lastName\<close>, \<open>gender\<close> and \<open>level\<close> of one and
  the same event of the filtered log.
\<close>

theorem users_row_from_one_event:
  assumes "read_log_data e input_data = Inr raw"
  shows "\<exists>U. users_parquet (snd (process_log_data e input_data st)) = Some U \<and>
     (\<forall>u \<in> set U. \<exists>ev \<in> set raw.
         page ev = Some ''NextSong'' \<and>
         u = \<lparr>users_user_id = userId ev, users_first_name = firstName ev,
              users_last_name = lastName ev, users_gender = gender ev,
              users_level = level ev\<rparr>)"
proof -
  have "\<exists>ev \<in> set raw. page ev = Some ''NextSong'' \<and>
         u = \<lparr>users_user_id = userId ev, users_first_name = firstName ev,
              users_last_name = lastName ev, users_gender = gender ev,
              users_level = level ev\<rparr>"
    if "u \<in> set (users_table (where_NextSong raw))" for u
    using users_table_rows [OF that]
    by (auto simp: set_where_NextSong select_users_def)
  then show ?thesis
    by (simp add: users_parquet_process_log_data [OF assms])
qed

lemma scenario_read_log_data:
  "read_log_data scenario_env ''data/input'' =
     Inr [play_free, page_view, play_paid, play_no_artist]"
  by (simp add: read_log_data_def log_data_def read_json_def resolve_def scenario_env_def)

lemma scenario_users_table:
  "users_table (where_NextSong [play_free, page_view, play_paid, play_no_artist]) =
     [\<lparr>users_user_id = Some ''1'', users_first_name = Some ''Ada'',
       users_last_name = Some ''Lund'', users_gender = Some ''F'',
       users_level = Some ''paid''\<rparr>]"
  by code_simp

theorem users_level_is_latest_witness:
  "read_log_data scenario_env ''data/input'' =
     Inr [play_free, page_view, play_paid, play_no_artist] \<and>
   users_parquet (snd (process_log_data scenario_env ''data/input'' empty_store)) =
     Some [\<lparr>users_user_id = Some ''1'', users_first_name = Some ''Ada'',
            users_last_name = Some ''Lund'', users_gender = Some ''F'',
            users_level = Some ''paid''\<rparr>] \<and>
   (\<exists>U. users_parquet (snd (process_log_data scenario_env ''data/input'' empty_store)) = Some U \<and>
     (\<forall>u \<in> set U. \<exists>ev \<in> set [play_free, page_view, play_paid, play_no_artist].
         page ev = Some ''NextSong'' \<and>
         userId ev = users_user_id u \<and> firstName ev = users_first_name u \<and>
         lastName ev = users_last_name u \<and> gender ev = users_gender u \<and>
         level ev = users_level u \<and>
         (\<forall>ev' \<in> set [play_free, page_view, play_paid, play_no_artist].
             page ev' = Some ''NextSong'' \<and>
             userId ev' = users_user_id u \<and> firstName ev' = users_first_name u \<and>
             lastName ev' = users_last_name u \<and> gender ev' = users_gender u
             \<longrightarrow> ts ev' \<le> ts ev)))"
proof -
  note rd = scenario_read_log_data
  have tbl: "users_parquet (snd (process_log_data scenario_env ''data/input'' empty_store)) =
     Some [\<lparr>users_user_id = Some ''1'', users_first_name = Some ''Ada'',
            users_last_name = Some ''Lund'', users_gender = Some ''F'',
            users_level = Some ''paid''\<rparr>]"
    by (simp only: users_parquet_process_log_data [OF rd] scenario_users_table)
  note c = users_level_is_latest [OF rd, of empty_store]
  from rd tbl c show ?thesis
    by (intro conjI)
qed

theorem users_row_from_one_event_witness:
  "read_log_data scenario_env ''data/input'' =
     Inr [play_free, page_view, play_paid, play_no_artist] \<and>
   (\<exists>U. users_parquet (snd (process_log_data scenario_env ''data/input'' empty_store)) = Some U \<and>
     (\<forall>u \<in> set U. \<exists>ev \<in> set [play_free, page_view, play_paid, play_no_artist].
         page ev = Some ''NextSong'' \<and>
         u = \<lparr>users_user_id = userId ev, users_first_name = firstName ev,
              users_last_name = lastName ev, users_gender = gender ev,
              users_level = level ev\<rparr>))"
proof -
  note rd = scenario_read_log_data
  note c = users_row_from_one_event [OF rd, of empty_store]
  from rd c show ?thesis
    by (intro conjI)
qed

section \<open>The activity log stage: times\<close>


lemma withColumn_start_time_ok:
  assumes "\<forall>r \<in> set df. \<exists>n. ts r = Some n \<and> - 62135596800000 \<le> n \<and> n \<le> 253402300799999"
  shows "withColumn_start_time df = Inr (map (\<lambda>r. (r, the (ts r) * 1000)) df)"
  using assms
proof (induction df)
  case Nil
  then show ?case by simp
next
  case (Cons r df)
  from Cons.prems obtain n where n: "ts r = Some n" "- 62135596800000 \<le> n" "n \<le> 253402300799999"
    by auto
  from Cons.prems have "\<forall>r \<in> set df. \<exists>n. ts r = Some n \<and> - 62135596800000 \<le> n \<and> n \<le> 253402300799999"
    by simp
  then have "withColumn_start_time df = Inr (map (\<lambda>r. (r, the (ts r) * 1000)) df)"
    by (rule Cons.IH)
  with n show ?case
    by (simp add: get_datetime_def)
qed

lemma plays_have_start_time:
  assumes "\<forall>r \<in> set raw. page r = Some ''NextSong'' \<longrightarrow>
             (\<exists>n. ts r = Some n \<and> - 62135596800000 \<le> n \<and> n \<le> 253402300799999)"
  shows "withColumn_start_time (where_NextSong raw) =
           Inr (map (\<lambda>r. (r, the (ts r) * 1000)) (where_NextSong raw))"
proof (rule withColumn_start_time_ok)
  show "\<forall>r \<in> set (where_NextSong raw).
          \<exists>n. ts r = Some n \<and> - 62135596800000 \<le> n \<and> n \<le> 253402300799999"
    using assms by (simp add: set_where_NextSong)
qed

lemma process_log_data_ok:
  assumes "read_log_data e input_data = Inr raw"
    and "withColumn_start_time (where_NextSong raw) = Inr df'"
    and "songs_parquet st = Some song_df" and "artists_parquet st = Some artist_df"
  shows "process_log_data e input_data st =
           (Inr (),
            st\<lparr>users_parquet := Some (users_table (where_NextSong raw)),
               times_parquet := Some (time_table df'),
               songplays_parquet := Some (songplays_table df' artist_df song_df)\<rparr>)"
  using assms by (simp add: process_log_data_def Let_def read_parquet_def)


subsection \<open>The calendar\<close>










lemma scenario_plays_have_ts:
  "\<forall>r \<in> set [play_free, page_view, play_paid, play_no_artist].
     page r = Some ''NextSong'' \<longrightarrow>
       (\<exists>n. ts r = Some n \<and> - 62135596800000 \<le> n \<and> n \<le> 253402300799999)"
  by (simp add: play_free_def page_view_def play_paid_def play_no_artist_def)

lemma scenario_store_tables:
  "songs_parquet scenario_store = Some (songs_table [song_A, song_A, song_A'])"
  "artists_parquet scenario_store = Some (artists_table [song_A, song_A, song_A'])"
  by (simp_all add: scenario_store_def process_song_data_ok [OF scenario_read_song_data])


section \<open>The activity log stage: songplays\<close>


lemma sql_eq_iff: "sql_eq a b = (\<exists>x. a = Some x \<and> b = Some x)"
  by (cases a; cases b) (auto simp: sql_eq_def)

lemma event_songplays_rows:
  assumes "p \<in> set (event_songplays artist_df song_df r)"
  shows "\<exists>a \<in> set artist_df. \<exists>s \<in> set song_df. \<exists>nm ttl len aid.
           artist (fst r) = Some nm \<and> artists_name a = Some nm \<and>
           song (fst r) = Some ttl \<and> songs_title s = Some ttl \<and>
           length_secs (fst r) = Some len \<and> songs_duration s = Some len \<and>
           artists_artist_id a = Some aid \<and> songs_artist_id s = Some aid \<and>
           p = select_songplays r a s"
proof -
  from assms obtain a s where as: "a \<in> set artist_df" "s \<in> set song_df"
    and c: "sql_eq (artist (fst r)) (artists_name a)"
      "sql_eq (artists_artist_id a) (songs_artist_id s)"
      "sql_eq (song (fst r)) (songs_title s)"
      "sql_eq (length_secs (fst r)) (songs_duration s)"
    and p: "p = select_songplays r a s"
    by (auto simp: event_songplays_def)
  from c obtain nm aid ttl len where
    "artist (fst r) = Some nm" "artists_name a = Some nm"
    "artists_artist_id a = Some aid" "songs_artist_id s = Some aid"
    "song (fst r) = Some ttl" "songs_title s = Some ttl"
    "length_secs (fst r) = Some len" "songs_duration s = Some len"
    unfolding sql_eq_iff by blast
  with as p show ?thesis by blast
qed

lemma event_songplays_no_match:
  assumes "\<not> (\<exists>a \<in> set artist_df. \<exists>s \<in> set song_df. \<exists>nm ttl len aid.
           artist (fst r) = Some nm \<and> artists_name a = Some nm \<and>
           song (fst r) = Some ttl \<and> songs_title s = Some ttl \<and>
           length_secs (fst r) = Some len \<and> songs_duration s = Some len \<and>
           artists_artist_id a = Some aid \<and> songs_artist_id s = Some aid)"
  shows "event_songplays artist_df song_df r = []"
proof (rule ccontr)
  assume "event_songplays artist_df song_df r \<noteq> []"
  then have "hd (event_songplays artist_df song_df r) \<in> set (event_songplays artist_df song_df r)"
    by (rule hd_in_set)
  from event_songplays_rows [OF this] assms show False
    by blast
qed

lemma event_songplays_null:
  assumes "artist (fst r) = None \<or> song (fst r) = None \<or> length_secs (fst r) = None"
  shows "event_songplays artist_df song_df r = []"
proof (rule event_songplays_no_match)
  from assms show "\<not> (\<exists>a \<in> set artist_df. \<exists>s \<in> set song_df. \<exists>nm ttl len aid.
           artist (fst r) = Some nm \<and> artists_name a = Some nm \<and>
           song (fst r) = Some ttl \<and> songs_title s = Some ttl \<and>
           length_secs (fst r) = Some len \<and> songs_duration s = Some len \<and>
           artists_artist_id a = Some aid \<and> songs_artist_id s = Some aid)"
    by auto
qed

lemma select_songplays_fields:
  "songplays_start_time (select_songplays (ev, t) a s) = t"
  "songplays_user_id (select_songplays (ev, t) a s) = userId ev"
  "songplays_level (select_songplays (ev, t) a s) = level ev"
  "songplays_song_id (select_songplays (ev, t) a s) = songs_song_id s"
  "songplays_artist_id (select_songplays (ev, t) a s) = artists_artist_id a"
  "songplays_session_id (select_songplays (ev, t) a s) = sessionId ev"
  "songplays_location (select_songplays (ev, t) a s) = location ev"
  "songplays_user_agent (select_songplays (ev, t) a s) = userAgent ev"
  "songplays_year (select_songplays (ev, t) a s) = F_year t"
  "songplays_month (select_songplays (ev, t) a s) = F_month t"
  by (simp_all add: select_songplays_def Let_def)

text \<open>
  Claim C2. The songplays dataset is the concatenation, over the plays of the log, of
  the rows the two inner joins give for each play. Every such row comes from an artist
  row and a song row of the persisted datasets that match the play exactly: the
  play's \<open>artist\<close> is the artist row's \<open>name\<close>, its \<open>song\<close> the song row's \<open>title\<close>, its
  \<open>length\<close> the song row's \<open>duration\<close> (equal values, no tolerance), and the two rows
  have the same \<open>artist_id\<close>, none of these being \<open>NULL\<close>. A play with no such pair
  gives no row, and the stage returns without error.
\<close>

theorem songplays_rows_match_catalog:
  assumes "read_log_data e input_data = Inr raw"
    and "\<forall>r \<in> set raw. page r = Some ''NextSong'' \<longrightarrow>
           (\<exists>n. ts r = Some n \<and> - 62135596800000 \<le> n \<and> n \<le> 253402300799999)"
    and "songs_parquet st = Some song_df" and "artists_parquet st = Some artist_df"
  shows "fst (process_log_data e input_data st) = Inr () \<and>
    (\<exists>df'. withColumn_start_time (where_NextSong raw) = Inr df' \<and>
       songplays_parquet (snd (process_log_data e input_data st)) =
         Some (concat (map (event_songplays artist_df song_df) df')) \<and>
       (\<forall>r \<in> set df'. \<forall>p \<in> set (event_songplays artist_df song_df r).
          \<exists>a \<in> set artist_df. \<exists>s \<in> set song_df. \<exists>nm ttl len aid.
            fst r \<in> set raw \<and> page (fst r) = Some ''NextSong'' \<and>
            artist (fst r) = Some nm \<and> artists_name a = Some nm \<and>
            song (fst r) = Some ttl \<and> songs_title s = Some ttl \<and>
            length_secs (fst r) = Some len \<and> songs_duration s = Some len \<and>
            artists_artist_id a = Some aid \<and> songs_artist_id s = Some aid \<and>
            songplays_song_id p = songs_song_id s \<and> songplays_artist_id p = Some aid \<and>
            songplays_user_id p = userId (fst r) \<and> songplays_level p = level (fst r) \<and>
            songplays_session_id p = sessionId (fst r) \<and>
            songplays_start_time p = snd r) \<and>
       (\<forall>r \<in> set df'.
          \<not> (\<exists>a \<in> set artist_df. \<exists>s \<in> set song_df. \<exists>nm ttl len aid.
                artist (fst r) = Some nm \<and> artists_name a = Some nm \<and>
                song (fst r) = Some ttl \<and> songs_title s = Some ttl \<and>
                length_secs (fst r) = Some len \<and> songs_duration s = Some len \<and>
                artists_artist_id a = Some aid \<and> songs_artist_id s = Some aid)
          \<longrightarrow> event_songplays artist_df song_df r = []))"
proof -
  let ?df = "where_NextSong raw"
  let ?df' = "map (\<lambda>r. (r, the (ts r) * 1000)) ?df"
  note st = plays_have_start_time [OF assms(2)]
  note ok = process_log_data_ok [OF assms(1) st assms(3,4)]
  have rows: "\<exists>a \<in> set artist_df. \<exists>s \<in> set song_df. \<exists>nm ttl len aid.
            fst r \<in> set raw \<and> page (fst r) = Some ''NextSong'' \<and>
            artist (fst r) = Some nm \<and> artists_name a = Some nm \<and>
            song (fst r) = Some ttl \<and> songs_title s = Some ttl \<and>
            length_secs (fst r) = Some len \<and> songs_duration s = Some len \<and>
            artists_artist_id a = Some aid \<and> songs_artist_id s = Some aid \<and>
            songplays_song_id p = songs_song_id s \<and> songplays_artist_id p = Some aid \<and>
            songplays_user_id p = userId (fst r) \<and> songplays_level p = level (fst r) \<and>
            songplays_session_id p = sessionId (fst r) \<and>
            songplays_start_time p = snd r"
    if r: "r \<in> set ?df'" and p: "p \<in> set (event_songplays artist_df song_df r)" for r p
  proof -
    from r have "fst r \<in> set ?df" by auto
    then have ev: "fst r \<in> set raw" "page (fst r) = Some ''NextSong''"
      by (simp_all add: set_where_NextSong)
    from event_songplays_rows [OF p] obtain a s nm ttl len aid where
      as: "a \<in> set artist_df" "s \<in> set song_df" and
      m: "artist (fst r) = Some nm" "artists_name a = Some nm"
        "song (fst r) = Some ttl" "songs_title s = Some ttl"
        "length_secs (fst r) = Some len" "songs_duration s = Some len"
        "artists_artist_id a = Some aid" "songs_artist_id s = Some aid" and
      sel: "p = select_songplays r a s"
      by blast
    from sel have "p = select_songplays (fst r, snd r) a s" by simp
    then have f: "songplays_song_id p = songs_song_id s" "songplays_artist_id p = Some aid"
      "songplays_user_id p = userId (fst r)" "songplays_level p = level (fst r)"
      "songplays_session_id p = sessionId (fst r)" "songplays_start_time p = snd r"
      by (simp_all only: select_songplays_fields m)
    from as ev m f show ?thesis by blast
  qed
  have none: "event_songplays artist_df song_df r = []"
    if "\<not> (\<exists>a \<in> set artist_df. \<exists>s \<in> set song_df. \<exists>nm ttl len aid.
                artist (fst r) = Some nm \<and> artists_name a = Some nm \<and>
                song (fst r) = Some ttl \<and> songs_title s = Some ttl \<and>
                length_secs (fst r) = Some len \<and> songs_duration s = Some len \<and>
                artists_artist_id a = Some aid \<and> songs_artist_id s = Some aid)" for r
    using that by (rule event_songplays_no_match)
  have "fst (process_log_data e input_data st) = Inr ()"
    by (simp add: ok)
  moreover have "songplays_parquet (snd (process_log_data e input_data st)) =
         Some (concat (map (event_songplays artist_df song_df) ?df'))"
    by (simp add: ok songplays_table_def)
  ultimately show ?thesis
    using st rows none by blast
qed

lemma scenario_songplays_parquet:
  "songplays_parquet (snd (process_log_data scenario_env ''data/input'' scenario_store)) =
     Some
       [select_songplays (play_free, 1541903636796000)
          (select_artists song_A) (select_songs song_A),
        select_songplays (play_free, 1541903636796000)
          (select_artists song_A') (select_songs song_A),
        select_songplays (play_paid, 1541990036796000)
          (select_artists song_A) (select_songs song_A),
        select_songplays (play_paid, 1541990036796000)
          (select_artists song_A') (select_songs song_A)]"
  by code_simp

theorem songplays_rows_match_catalog_witness:
  "read_log_data scenario_env ''data/input'' =
     Inr [play_free, page_view, play_paid, play_no_artist] \<and>
   ts play_free = Some 1541903636796 \<and> ts play_paid = Some 1541990036796 \<and>
   ts play_no_artist = Some 1541903636796 \<and> page page_view = Some ''Home'' \<and>
   songs_parquet scenario_store = Some (songs_table [song_A, song_A, song_A']) \<and>
   artists_parquet scenario_store = Some (artists_table [song_A, song_A, song_A']) \<and>
   songplays_parquet (snd (process_log_data scenario_env ''data/input'' scenario_store)) =
     Some
       [select_songplays (play_free, 1541903636796000)
          (select_artists song_A) (select_songs song_A),
        select_songplays (play_free, 1541903636796000)
          (select_artists song_A') (select_songs song_A),
        select_songplays (play_paid, 1541990036796000)
          (select_artists song_A) (select_songs song_A),
        select_songplays (play_paid, 1541990036796000)
          (select_artists song_A') (select_songs song_A)] \<and>
   fst (process_log_data scenario_env ''data/input'' scenario_store) = Inr () \<and>
   (\<exists>df'. withColumn_start_time (where_NextSong [play_free, page_view, play_paid, play_no_artist])
            = Inr df' \<and>
       songplays_parquet (snd (process_log_data scenario_env ''data/input'' scenario_store)) =
         Some (concat (map (event_songplays (artists_table [song_A, song_A, song_A'])
                             (songs_table [song_A, song_A, song_A'])) df')) \<and>
       (\<forall>r \<in> set df'. \<forall>p \<in> set (event_songplays (artists_table [song_A, song_A, song_A'])
                                      (songs_table [song_A, song_A, song_A']) r).
          \<exists>a \<in> set (artists_table [song_A, song_A, song_A']).
          \<exists>s \<in> set (songs_table [song_A, song_A, song_A']). \<exists>nm ttl len aid.
            fst r \<in> set [play_free, page_view, play_paid, play_no_artist] \<and>
            page (fst r) = Some ''NextSong'' \<and>
            artist (fst r) = Some nm \<and> artists_name a = Some nm \<and>
            song (fst r) = Some ttl \<and> songs_title s = Some ttl \<and>
            length_secs (fst r) = Some len \<and> songs_duration s = Some len \<and>
            artists_artist_id a = Some aid \<and> songs_artist_id s = Some aid \<and>
            songplays_song_id p = songs_song_id s \<and> songplays_artist_id p = Some aid \<and>
            songplays_user_id p = userId (fst r) \<and> songplays_level p = level (fst r) \<and>
            songplays_session_id p = sessionId (fst r) \<and>
            songplays_start_time p = snd r) \<and>
       (\<forall>r \<in> set df'.
          \<not> (\<exists>a \<in> set (artists_table [song_A, song_A, song_A']).
              \<exists>s \<in> set (songs_table [song_A, song_A, song_A']). \<exists>nm ttl len aid.
                artist (fst r) = Some nm \<and> artists_name a = Some nm \<and>
                song (fst r) = Some ttl \<and> songs_title s = Some ttl \<and>
                length_secs (fst r) = Some len \<and> songs_duration s = Some len \<and>
                artists_artist_id a = Some aid \<and> songs_artist_id s = Some aid)
          \<longrightarrow> event_songplays (artists_table [song_A, song_A, song_A'])
                (songs_table [song_A, song_A, song_A']) r = []))"
proof -
  note rd = scenario_read_log_data
  have tss: "ts play_free = Some 1541903636796" "ts play_paid = Some 1541990036796"
    "ts play_no_artist = Some 1541903636796" "page page_view = Some ''Home''"
    by (simp_all add: play_free_def play_paid_def play_no_artist_def page_view_def)
  note c = songplays_rows_match_catalog [OF rd scenario_plays_have_ts scenario_store_tables]
  from rd tss scenario_store_tables scenario_songplays_parquet c show ?thesis
    by (intro conjI) blast+
qed

text \<open>
  Claim C5. When the songs or the artists dataset is absent, \<open>process_log_data\<close>
  fails: it returns an error and leaves the songplays dataset as it was, so no empty
  songplays table is written. When nothing failed before the re-read, the error is the
  re-read's own (\<open>AnalysisException\<close> on the missing path).
\<close>

theorem songplays_none_without_stage_one:
  assumes "songs_parquet st = None \<or> artists_parquet st = None"
  shows "\<exists>err. fst (process_log_data e input_data st) = Inl err \<and>
           songplays_parquet (snd (process_log_data e input_data st)) = songplays_parquet st \<and>
           (\<forall>raw df'. read_log_data e input_data = Inr raw \<and>
                withColumn_start_time (where_NextSong raw) = Inr df' \<longrightarrow>
                err = AnalysisException ''songs'' \<or> err = AnalysisException ''artists'')"
proof (cases "read_log_data e input_data")
  case (Inl err)
  then show ?thesis
    by (simp add: process_log_data_def)
next
  case rd: (Inr raw)
  show ?thesis
  proof (cases "withColumn_start_time (where_NextSong raw)")
    case (Inl err)
    with rd show ?thesis
      by (simp add: process_log_data_def Let_def)
  next
    case (Inr df')
    show ?thesis
    proof (cases "songs_parquet st")
      case None
      with rd Inr show ?thesis
        by (simp add: process_log_data_def Let_def read_parquet_def)
    next
      case (Some song_df)
      with assms have "artists_parquet st = None" by simp
      with rd Inr Some show ?thesis
        by (simp add: process_log_data_def Let_def read_parquet_def)
    qed
  qed
qed


theorem songplays_none_without_stage_one_witness:
  "songs_parquet empty_store = None \<and>
   process_log_data scenario_env ''data/input'' empty_store =
     (Inl (AnalysisException ''songs''),
      empty_store
        \<lparr>users_parquet := Some (users_table (where_NextSong
             [play_free, page_view, play_paid, play_no_artist])),
         times_parquet := Some (time_table
             [(play_free, 1541903636796000), (play_paid, 1541990036796000),
              (play_no_artist, 1541903636796000)])\<rparr>) \<and>
   (\<exists>err. fst (process_log_data scenario_env ''data/input'' empty_store) = Inl err \<and>
      songplays_parquet (snd (process_log_data scenario_env ''data/input'' empty_store)) =
        songplays_parquet empty_store \<and>
      (\<forall>raw df'. read_log_data scenario_env ''data/input'' = Inr raw \<and>
           withColumn_start_time (where_NextSong raw) = Inr df' \<longrightarrow>
           err = AnalysisException ''songs'' \<or> err = AnalysisException ''artists''))"
proof -
  have n: "songs_parquet empty_store = None"
    by (simp add: empty_store_def)
  then have d: "songs_parquet empty_store = None \<or> artists_parquet empty_store = None"
    by simp
  have ev: "process_log_data scenario_env ''data/input'' empty_store =
     (Inl (AnalysisException ''songs''),
      empty_store
        \<lparr>users_parquet := Some (users_table (where_NextSong
             [play_free, page_view, play_paid, play_no_artist])),
         times_parquet := Some (time_table
             [(play_free, 1541903636796000), (play_paid, 1541990036796000),
              (play_no_artist, 1541903636796000)])\<rparr>)"
    by code_simp
  note c = songplays_none_without_stage_one [OF d, of scenario_env "''data/input''"]
  from n ev c show ?thesis
    by (intro conjI)
qed

text \<open>
  Claim C10. A play whose \<open>artist\<close>, \<open>song\<close> or \<open>length\<close> is \<open>NULL\<close> gives no row of the
  songplays dataset, and the stage returns without error: a comparison with \<open>NULL\<close>
  is not true, so such a play meets no join condition. The dataset is the one the
  plays without \<open>NULL\<close> in these three columns give.
\<close>

theorem null_join_columns_give_no_songplays:
  assumes "read_log_data e input_data = Inr raw"
    and "\<forall>r \<in> set raw. page r = Some ''NextSong'' \<longrightarrow>
           (\<exists>n. ts r = Some n \<and> - 62135596800000 \<le> n \<and> n \<le> 253402300799999)"
    and "songs_parquet st = Some song_df" and "artists_parquet st = Some artist_df"
  shows "fst (process_log_data e input_data st) = Inr () \<and>
    (\<exists>df'. withColumn_start_time (where_NextSong raw) = Inr df' \<and>
       songplays_parquet (snd (process_log_data e input_data st)) =
         Some (concat (map (event_songplays artist_df song_df) df')) \<and>
       (\<forall>r \<in> set df'.
          artist (fst r) = None \<or> song (fst r) = None \<or> length_secs (fst r) = None
          \<longrightarrow> event_songplays artist_df song_df r = []) \<and>
       concat (map (event_songplays artist_df song_df) df') =
         concat (map (event_songplays artist_df song_df)
           [r \<leftarrow> df'. artist (fst r) \<noteq> None \<and> song (fst r) \<noteq> None \<and>
                       length_secs (fst r) \<noteq> None]))"
proof -
  let ?df' = "map (\<lambda>r. (r, the (ts r) * 1000)) (where_NextSong raw)"
  note st = plays_have_start_time [OF assms(2)]
  note ok = process_log_data_ok [OF assms(1) st assms(3,4)]
  have null: "event_songplays artist_df song_df r = []"
    if "artist (fst r) = None \<or> song (fst r) = None \<or> length_secs (fst r) = None" for r
    using that by (rule event_songplays_null)
  have same: "concat (map (event_songplays artist_df song_df) df) =
         concat (map (event_songplays artist_df song_df)
           [r \<leftarrow> df. artist (fst r) \<noteq> None \<and> song (fst r) \<noteq> None \<and>
                      length_secs (fst r) \<noteq> None])" for df
  proof (induction df)
    case Nil
    show ?case by simp
  next
    case (Cons r df)
    show ?case
    proof (cases "artist (fst r) = None \<or> song (fst r) = None \<or> length_secs (fst r) = None")
      case True
      from null [OF True] True Cons.IH show ?thesis by auto
    next
      case False
      with Cons.IH show ?thesis by simp
    qed
  qed
  have "fst (process_log_data e input_data st) = Inr ()"
    by (simp add: ok)
  moreover have "songplays_parquet (snd (process_log_data e input_data st)) =
         Some (concat (map (event_songplays artist_df song_df) ?df'))"
    by (simp add: ok songplays_table_def)
  ultimately show ?thesis
    using st null same [of ?df'] by blast
qed

theorem null_join_columns_give_no_songplays_witness:
  "read_log_data scenario_env ''data/input'' =
     Inr [play_free, page_view, play_paid, play_no_artist] \<and>
   page play_no_artist = Some ''NextSong'' \<and> artist play_no_artist = None \<and>
   songs_parquet scenario_store = Some (songs_table [song_A, song_A, song_A']) \<and>
   artists_parquet scenario_store = Some (artists_table [song_A, song_A, song_A']) \<and>
   withColumn_start_time (where_NextSong [play_free, page_view, play_paid, play_no_artist]) =
     Inr [(play_free, 1541903636796000), (play_paid, 1541990036796000),
          (play_no_artist, 1541903636796000)] \<and>
   event_songplays (artists_table [song_A, song_A, song_A'])
     (songs_table [song_A, song_A, song_A']) (play_no_artist, 1541903636796000) = [] \<and>
   fst (process_log_data scenario_env ''data/input'' scenario_store) = Inr () \<and>
   (\<exists>df'. withColumn_start_time (where_NextSong [play_free, page_view, play_paid, play_no_artist])
            = Inr df' \<and>
       songplays_parquet (snd (process_log_data scenario_env ''data/input'' scenario_store)) =
         Some (concat (map (event_songplays (artists_table [song_A, song_A, song_A'])
                             (songs_table [song_A, song_A, song_A'])) df')) \<and>
       (\<forall>r \<in> set df'.
          artist (fst r) = None \<or> song (fst r) = None \<or> length_secs (fst r) = None
          \<longrightarrow> event_songplays (artists_table [song_A, song_A, song_A'])
                (songs_table [song_A, song_A, song_A']) r = []) \<and>
       concat (map (event_songplays (artists_table [song_A, song_A, song_A'])
                     (songs_table [song_A, song_A, song_A'])) df') =
         concat (map (event_songplays (artists_table [song_A, song_A, song_A'])
                       (songs_table [song_A, song_A, song_A']))
           [r \<leftarrow> df'. artist (fst r) \<noteq> None \<and> song (fst r) \<noteq> None \<and>
                       length_secs (fst r) \<noteq> None]))"
proof -
  note rd = scenario_read_log_data
  have ev: "page play_no_artist = Some ''NextSong''" "artist play_no_artist = None"
    by (simp_all add: play_no_artist_def play_free_def)
  have wc: "withColumn_start_time
      (where_NextSong [play_free, page_view, play_paid, play_no_artist]) =
     Inr [(play_free, 1541903636796000), (play_paid, 1541990036796000),
          (play_no_artist, 1541903636796000)]"
    by code_simp
  note c = null_join_columns_give_no_songplays
    [OF rd scenario_plays_have_ts scenario_store_tables]
  from c wc ev(2) have none: "event_songplays (artists_table [song_A, song_A, song_A'])
     (songs_table [song_A, song_A, song_A']) (play_no_artist, 1541903636796000) = []"
    by auto
  from rd ev scenario_store_tables wc none c show ?thesis
    by (intro conjI) blast+
qed

section \<open>Zero source objects\<close>




section \<open>Running the pipeline again\<close>

text \<open>
  Claim C8. A second run of \<open>main\<close> on the same input, started on the output of the
  first, returns the same result and leaves the same five datasets: every write
  replaces its dataset.
\<close>

theorem main_idempotent: "main e (snd (main e st)) = main e st"
proof (cases "read_song_data e ''data/input''")
  case (Inl err)
  then show ?thesis
    by (simp add: main_def process_song_data_def)
next
  case s: (Inr sdf)
  show ?thesis
  proof (cases "read_log_data e ''data/input''")
    case (Inl err)
    with s show ?thesis
      by (simp add: main_def process_song_data_def process_log_data_def)
  next
    case l: (Inr raw)
    show ?thesis
    proof (cases "withColumn_start_time (where_NextSong raw)")
      case (Inl err)
      with s l show ?thesis
        by (simp add: main_def process_song_data_def process_log_data_def Let_def)
    next
      case (Inr df')
      with s l show ?thesis
        by (simp add: main_def process_song_data_def process_log_data_def Let_def read_parquet_def)
    qed
  qed
qed

theorem main_idempotent_witness:
  "fst (main scenario_env empty_store) = Inr () \<and>
   main scenario_env (snd (main scenario_env empty_store)) = main scenario_env empty_store"
proof -
  have "fst (main scenario_env empty_store) = Inr ()"
    by code_simp
  with main_idempotent [of scenario_env empty_store] show ?thesis
    by simp
qed

end
